theory Spec2Isabelle
  imports Main
begin

section \<open>The environment of \<open>check_lib_rs.py\<close>\<close>

text \<open>
  \<open>codex-rs/mcp-types/check_lib_rs.py\<close> picks a Python interpreter of version 3.10 or
  newer and runs \<open>generate_mcp_types.py --check\<close> under it. Everything the script reads
  from the outside world is a field of the record \<open>env\<close>; every call of
  \<open>subprocess.run\<close> is appended, in order, to a list of commands that the model returns
  next to the result.
\<close>

text \<open>The arguments of one \<open>subprocess.run\<close> call: the argument vector and the \<open>cwd\<close>
  keyword (\<open>None\<close> when the call does not pass it).\<close>

record command =
  args :: "string list"
  cwd :: "string option"

text \<open>What \<open>subprocess.run(..., check=False)\<close> does: it returns a
  \<open>CompletedProcess\<close> with the child's return code, whatever the code is, or the child
  cannot be started and the call raises \<open>OSError\<close>.\<close>

datatype run_outcome = Exited int | SpawnFailed

text \<open>The exceptions that can leave the functions of the script.\<close>

datatype py_error = RuntimeError string | OSError

text \<open>
  \<^item> \<open>version_info\<close>: the integer components of \<open>sys.version_info\<close> (major, minor,
    micro); the comparison with the two components of \<open>MIN_VERSION\<close> never reaches the
    later ones;
  \<^item> \<open>executable\<close>: \<open>sys.executable\<close>;
  \<^item> \<open>which\<close>: \<open>shutil.which\<close>, \<open>None\<close> when the name is not on the search path;
  \<^item> \<open>run\<close>: the outcome of \<open>subprocess.run\<close> on a command;
  \<^item> \<open>this_file\<close>: the components below the root of \<open>Path(__file__).resolve()\<close>, an
    absolute POSIX path;
  \<^item> \<open>is_file\<close>: which paths name an existing file. The script never reads it.
\<close>

record env =
  version_info :: "int list"
  executable :: string
  which :: "string \<Rightarrow> string option"
  run :: "command \<Rightarrow> run_outcome"
  this_file :: "string list"
  is_file :: "string \<Rightarrow> bool"

section \<open>Python tuples and paths\<close>

text \<open>\<open>a >= b\<close> on tuples of integers: the first differing component decides, and a
  tuple is greater than each of its proper prefixes.\<close>

fun tuple_ge :: "int list \<Rightarrow> int list \<Rightarrow> bool" where
  "tuple_ge xs [] = True"
| "tuple_ge [] (y # ys) = False"
| "tuple_ge (x # xs) (y # ys) = (if x = y then tuple_ge xs ys else y < x)"

text \<open>\<open>Path.parent\<close>, \<open>Path / name\<close> and \<open>str(Path)\<close> on absolute POSIX paths, kept as
  the list of their components. The parent of the root is the root.\<close>

definition parent :: "string list \<Rightarrow> string list" where
  "parent p = butlast p"

definition joinpath :: "string list \<Rightarrow> string \<Rightarrow> string list" where
  "joinpath p name = p @ [name]"

definition str_path :: "string list \<Rightarrow> string" where
  "str_path p = (if p = [] then ''/'' else concat (map (\<lambda>c. ''/'' @ c) p))"

section \<open>The script\<close>

definition MIN_VERSION :: "int list" where
  "MIN_VERSION = [3, 10]"

definition version_ok :: "env \<Rightarrow> bool" where
  "version_ok e = tuple_ge (version_info e) MIN_VERSION"

text \<open>The tuple the \<open>for\<close> loop of \<open>python_for_generator\<close> iterates over.\<close>

definition candidates :: "string list" where
  "candidates = [''python3.12'', ''python3.11'', ''python3.10'', ''python3'']"

text \<open>The probe: \<open>[path, "-c", "import sys; exit(...)"]\<close>, with no \<open>cwd\<close>.\<close>

definition probe_cmd :: "string \<Rightarrow> command" where
  "probe_cmd path =
     \<lparr>args = [path, ''-c'', ''import sys; exit(0 if sys.version_info >= (3, 10) else 1)''],
      cwd = None\<rparr>"

definition no_python_message :: string where
  "no_python_message =
     ''Python 3.10+ is required to generate MCP types. '' @
     ''Install Python 3.10 or newer and ensure it is discoverable as python3.''"

text \<open>
  The loop of \<open>python_for_generator\<close> over the candidates still to try, with the commands
  run so far. \<open>not path\<close> holds for \<open>None\<close> and for the empty string. The equation for
  the empty list is the code after the loop: the \<open>raise RuntimeError(...)\<close>.
\<close>

fun probe_loop :: "env \<Rightarrow> string list \<Rightarrow> command list \<Rightarrow> (py_error + string) \<times> command list" where
  "probe_loop e [] log = (Inl (RuntimeError no_python_message), log)"
| "probe_loop e (candidate # rest) log =
     (case which e candidate of
        None \<Rightarrow> probe_loop e rest log
      | Some path \<Rightarrow>
          if path = [] \<or> path = executable e then probe_loop e rest log
          else (case run e (probe_cmd path) of
                  SpawnFailed \<Rightarrow> (Inl OSError, log @ [probe_cmd path])
                | Exited returncode \<Rightarrow>
                    if returncode = 0 then (Inr path, log @ [probe_cmd path])
                    else probe_loop e rest (log @ [probe_cmd path])))"

definition python_for_generator :: "env \<Rightarrow> (py_error + string) \<times> command list" where
  "python_for_generator e =
     (if version_ok e then (Inr (executable e), [])
      else probe_loop e candidates [])"

text \<open>The command \<open>main\<close> runs: \<open>[python_exe, str(generator), "--check"]\<close> with
  \<open>cwd=crate_dir\<close>.\<close>

definition generator_cmd :: "env \<Rightarrow> string \<Rightarrow> command" where
  "generator_cmd e python_exe =
     (let crate_dir = parent (this_file e);
          generator = joinpath crate_dir ''generate_mcp_types.py''
      in \<lparr>args = [python_exe, str_path generator, ''--check''],
          cwd = Some (str_path crate_dir)\<rparr>)"

definition main :: "env \<Rightarrow> (py_error + int) \<times> command list" where
  "main e =
     (case python_for_generator e of
        (Inl err, log) \<Rightarrow> (Inl err, log)
      | (Inr python_exe, log) \<Rightarrow>
          (case run e (generator_cmd e python_exe) of
             SpawnFailed \<Rightarrow> (Inl OSError, log @ [generator_cmd e python_exe])
           | Exited returncode \<Rightarrow> (Inr returncode, log @ [generator_cmd e python_exe])))"

text \<open>
  \<open>raise SystemExit(main())\<close> as the program: the exit status of the process and the
  commands it ran. An exception that nothing catches ends the interpreter with status 1;
  \<open>SystemExit(n)\<close> ends it with the low eight bits of \<open>n\<close>.
\<close>

definition script :: "env \<Rightarrow> int \<times> command list" where
  "script e =
     (case main e of
        (Inl err, log) \<Rightarrow> (1, log)
      | (Inr code, log) \<Rightarrow> (code mod 256, log))"

section \<open>Vocabulary of the properties\<close>

text \<open>A candidate name qualifies: it resolves to a non-empty path other than
  \<open>sys.executable\<close>, and the probe of that path exits with status 0.\<close>

definition qualifying :: "env \<Rightarrow> string \<Rightarrow> bool" where
  "qualifying e candidate =
     (case which e candidate of
        None \<Rightarrow> False
      | Some path \<Rightarrow> path \<noteq> [] \<and> path \<noteq> executable e \<and> run e (probe_cmd path) = Exited 0)"

text \<open>The probe of a candidate name cannot be started.\<close>

definition spawn_fails :: "env \<Rightarrow> string \<Rightarrow> bool" where
  "spawn_fails e candidate =
     (case which e candidate of
        None \<Rightarrow> False
      | Some path \<Rightarrow> path \<noteq> [] \<and> path \<noteq> executable e \<and> run e (probe_cmd path) = SpawnFailed)"

text \<open>A candidate name the loop passes over: unresolved, resolved to the running
  interpreter, or probed with a nonzero exit status.\<close>

definition rejected :: "env \<Rightarrow> string \<Rightarrow> bool" where
  "rejected e candidate =
     (case which e candidate of
        None \<Rightarrow> True
      | Some path \<Rightarrow>
          path = [] \<or> path = executable e \<or>
          (case run e (probe_cmd path) of Exited rc \<Rightarrow> rc \<noteq> 0 | SpawnFailed \<Rightarrow> False))"


text \<open>The calls of a list that started a process.\<close>

definition spawned :: "env \<Rightarrow> command list \<Rightarrow> command list" where
  "spawned e log = filter (\<lambda>c. run e c \<noteq> SpawnFailed) log"

section \<open>Example environments\<close>

text \<open>Python 3.11 runs the script: the fast path. The generator exits with status 3.\<close>

definition env_311 :: env where
  "env_311 =
     \<lparr>version_info = [3, 11, 4],
      executable = ''/usr/bin/python3'',
      which = (\<lambda>name. None),
      run = (\<lambda>c. if hd (args c) = ''/usr/bin/python3'' then Exited 3 else SpawnFailed),
      this_file = [''repo'', ''mcp-types'', ''check_lib_rs.py''],
      is_file = (\<lambda>p. True)\<rparr>"

text \<open>Python 3.9 runs the script as \<open>/usr/bin/python3\<close>; of the candidates only
  \<open>python3.11\<close> and \<open>python3\<close> are on the search path, the second being the running
  interpreter. The probe of \<open>python3.11\<close> exits with 0, the generator with 7.\<close>

definition env_39 :: env where
  "env_39 =
     \<lparr>version_info = [3, 9, 18],
      executable = ''/usr/bin/python3'',
      which = (\<lambda>name. if name = ''python3.11'' then Some ''/usr/local/bin/python3.11''
                      else if name = ''python3'' then Some ''/usr/bin/python3'' else None),
      run = (\<lambda>c. if hd (args c) = ''/usr/local/bin/python3.11''
                   then (if cwd c = None then Exited 0 else Exited 7) else SpawnFailed),
      this_file = [''repo'', ''mcp-types'', ''check_lib_rs.py''],
      is_file = (\<lambda>p. True)\<rparr>"

text \<open>Python 3.8 runs the script and no candidate name is on the search path.\<close>

definition env_38 :: env where
  "env_38 =
     \<lparr>version_info = [3, 8, 10],
      executable = ''/usr/bin/python3'',
      which = (\<lambda>name. None),
      run = (\<lambda>c. SpawnFailed),
      this_file = [''repo'', ''mcp-types'', ''check_lib_rs.py''],
      is_file = (\<lambda>p. True)\<rparr>"

text \<open>Python 3.9 runs the script; \<open>python3.12\<close> resolves to a file that cannot be
  executed, \<open>python3.11\<close> to a working Python 3.11.\<close>

definition env_broken :: env where
  "env_broken =
     \<lparr>version_info = [3, 9, 18],
      executable = ''/usr/bin/python3.9'',
      which = (\<lambda>name. if name = ''python3.12'' then Some ''/opt/broken/bin/python3.12''
                      else if name = ''python3.11'' then Some ''/usr/local/bin/python3.11''
                      else None),
      run = (\<lambda>c. if hd (args c) = ''/usr/local/bin/python3.11'' then Exited 0 else SpawnFailed),
      this_file = [''repo'', ''mcp-types'', ''check_lib_rs.py''],
      is_file = (\<lambda>p. True)\<rparr>"

text \<open>Python 3.9 runs the script; \<open>python3.10\<close> resolves to a version-manager shim that
  exits with 127, \<open>python3\<close> to a working Python 3.11. The generator exits with 0.\<close>

definition env_shim :: env where
  "env_shim =
     \<lparr>version_info = [3, 9, 18],
      executable = ''/usr/bin/python3.9'',
      which = (\<lambda>name. if name = ''python3.10'' then Some ''/home/dev/.pyenv/shims/python3.10''
                      else if name = ''python3'' then Some ''/usr/local/bin/python3''
                      else None),
      run = (\<lambda>c. if hd (args c) = ''/home/dev/.pyenv/shims/python3.10'' then Exited 127
                   else if hd (args c) = ''/usr/local/bin/python3'' then Exited 0
                   else SpawnFailed),
      this_file = [''repo'', ''mcp-types'', ''check_lib_rs.py''],
      is_file = (\<lambda>p. True)\<rparr>"

text \<open>Python 3.9 runs the script; the three versioned names resolve to shims that exit
  with 127, \<open>python3\<close> to a working Python 3.11.\<close>

definition env_worst :: env where
  "env_worst =
     \<lparr>version_info = [3, 9, 18],
      executable = ''/usr/bin/python3.9'',
      which = (\<lambda>name. if name = ''python3'' then Some ''/usr/local/bin/python3''
                      else Some (''/shims/'' @ name)),
      run = (\<lambda>c. if hd (args c) = ''/usr/local/bin/python3'' then Exited 0 else Exited 127),
      this_file = [''repo'', ''mcp-types'', ''check_lib_rs.py''],
      is_file = (\<lambda>p. True)\<rparr>"

text \<open>Python 3.11 runs the script, \<open>generate_mcp_types.py\<close> is missing, and the child
  interpreter exits with 2.\<close>

definition env_no_script :: env where
  "env_no_script =
     \<lparr>version_info = [3, 11, 4],
      executable = ''/usr/bin/python3'',
      which = (\<lambda>name. None),
      run = (\<lambda>c. Exited 2),
      this_file = [''repo'', ''mcp-types'', ''check_lib_rs.py''],
      is_file = (\<lambda>p. False)\<rparr>"

text \<open>Python 3.9 runs the script; the three versioned names resolve to shims that exit
  with 127, and \<open>python3\<close> resolves to a file that cannot be executed.\<close>

definition env_unstartable :: env where
  "env_unstartable =
     \<lparr>version_info = [3, 9, 18],
      executable = ''/usr/bin/python3.9'',
      which = (\<lambda>name. if name = ''python3'' then Some ''/usr/local/bin/python3''
                      else Some (''/shims/'' @ name)),
      run = (\<lambda>c. if hd (args c) = ''/usr/local/bin/python3'' then SpawnFailed else Exited 127),
      this_file = [''repo'', ''mcp-types'', ''check_lib_rs.py''],
      is_file = (\<lambda>p. True)\<rparr>"

text \<open>Python 3.9 runs the script; all four names resolve to shims that exit with 127.\<close>

definition env_all_shims :: env where
  "env_all_shims =
     \<lparr>version_info = [3, 9, 18],
      executable = ''/usr/bin/python3.9'',
      which = (\<lambda>name. Some (''/shims/'' @ name)),
      run = (\<lambda>c. Exited 127),
      this_file = [''repo'', ''mcp-types'', ''check_lib_rs.py''],
      is_file = (\<lambda>p. True)\<rparr>"

section \<open>Properties\<close>

lemma version_ok_major_minor:
  "version_ok (e\<lparr>version_info := [major, minor, micro]\<rparr>) \<longleftrightarrow>
     3 < major \<or> (major = 3 \<and> 10 \<le> minor)"
  by (auto simp: version_ok_def MIN_VERSION_def)

subsection \<open>The probe loop\<close>

text \<open>The loop only appends to the list of calls: its result does not depend on the
  calls made before it.\<close>

lemma probe_loop_acc:
  "probe_loop e cs log = (fst (probe_loop e cs []), log @ snd (probe_loop e cs []))"
proof (induction cs arbitrary: log)
  case Nil
  show ?case by simp
next
  case (Cons c cs)
  note IH = Cons.IH
  show ?case
  proof (cases "which e c")
    case None
    then show ?thesis using IH [of log] by simp
  next
    case (Some path)
    show ?thesis
    proof (cases "path = [] \<or> path = executable e")
      case True
      then show ?thesis using Some IH [of log] by simp
    next
      case False
      show ?thesis
      proof (cases "run e (probe_cmd path)")
        case SpawnFailed
        then show ?thesis using Some False by simp
      next
        case (Exited rc)
        show ?thesis
        proof (cases "rc = 0")
          case True
          then show ?thesis using Some False Exited by simp
        next
          case nz: False
          have "probe_loop e (c # cs) log = probe_loop e cs (log @ [probe_cmd path])"
            using Some False Exited nz by simp
          moreover have "probe_loop e (c # cs) [] = probe_loop e cs [probe_cmd path]"
            using Some False Exited nz by simp
          ultimately show ?thesis
            using IH [of "log @ [probe_cmd path]"] IH [of "[probe_cmd path]"] by simp
        qed
      qed
    qed
  qed
qed

lemma probe_loop_Inr:
  "probe_loop e cs log = (Inr p, log') \<Longrightarrow>
     run e (probe_cmd p) = Exited 0 \<and> p \<noteq> [] \<and> p \<noteq> executable e \<and>
     (\<exists>c\<in>set cs. which e c = Some p) \<and> log' \<noteq> [] \<and> last log' = probe_cmd p"
  by (induction cs arbitrary: log)
     (auto split: option.splits if_splits run_outcome.splits)

lemma probe_loop_calls:
  "\<exists>ps. snd (probe_loop e cs log) = log @ map probe_cmd ps \<and> length ps \<le> length cs \<and>
        (\<forall>p\<in>set ps. p \<noteq> [] \<and> p \<noteq> executable e) \<and>
        (\<forall>p\<in>set (butlast ps). \<exists>rc. rc \<noteq> 0 \<and> run e (probe_cmd p) = Exited rc)"
  (is "\<exists>ps. ?P cs log ps")
proof (induction cs arbitrary: log)
  case Nil
  show ?case by simp
next
  case (Cons c cs)
  note IH = Cons.IH
  have skip: "\<exists>ps. ?P (c # cs) log ps" if eq: "probe_loop e (c # cs) log = probe_loop e cs log"
  proof -
    from IH [of log] obtain ps where "?P cs log ps" by blast
    then have "?P (c # cs) log ps" using eq by simp
    then show ?thesis by blast
  qed
  show ?case
  proof (cases "which e c")
    case None
    then show ?thesis by (intro skip) simp
  next
    case (Some path)
    show ?thesis
    proof (cases "path = [] \<or> path = executable e")
      case True
      then show ?thesis using Some by (intro skip) simp
    next
      case False
      have one: "\<exists>ps. ?P (c # cs) log ps"
        if eq: "snd (probe_loop e (c # cs) log) = log @ [probe_cmd path]"
      proof -
        have "?P (c # cs) log [path]" using eq False by simp
        then show ?thesis by blast
      qed
      show ?thesis
      proof (cases "run e (probe_cmd path)")
        case SpawnFailed
        then show ?thesis using Some False by (intro one) simp
      next
        case (Exited rc)
        show ?thesis
        proof (cases "rc = 0")
          case True
          then show ?thesis using Some False Exited by (intro one) simp
        next
          case nz: False
          have eq: "probe_loop e (c # cs) log = probe_loop e cs (log @ [probe_cmd path])"
            using Some False Exited nz by simp
          from IH [of "log @ [probe_cmd path]"] obtain ps
            where ps: "?P cs (log @ [probe_cmd path]) ps" by blast
          have "?P (c # cs) log (path # ps)"
            using ps eq False Exited nz by (auto dest: in_set_butlastD)
          then show ?thesis by blast
        qed
      qed
    qed
  qed
qed

lemma probe_loop_first:
  "find (qualifying e) cs = Some c \<Longrightarrow> which e c = Some p \<Longrightarrow>
   \<forall>c'\<in>set (takeWhile (\<lambda>c'. \<not> qualifying e c') cs). \<not> spawn_fails e c' \<Longrightarrow>
   fst (probe_loop e cs log) = Inr p"
proof (induction cs arbitrary: log)
  case Nil
  then show ?case by simp
next
  case (Cons a cs)
  show ?case
  proof (cases "qualifying e a")
    case True
    then have "a = c" using Cons.prems(1) by simp
    then show ?thesis
      using True Cons.prems(2) by (simp add: qualifying_def)
  next
    case False
    then have "find (qualifying e) cs = Some c"
      and "\<forall>c'\<in>set (takeWhile (\<lambda>c'. \<not> qualifying e c') cs). \<not> spawn_fails e c'"
      and nf: "\<not> spawn_fails e a"
      using Cons.prems by simp_all
    then have IH: "fst (probe_loop e cs log') = Inr p" for log'
      using Cons.IH Cons.prems(2) by blast
    show ?thesis
      using False nf IH
      by (auto simp: qualifying_def spawn_fails_def split: option.splits run_outcome.splits)
  qed
qed

lemma probe_loop_rejected:
  "\<forall>c\<in>set cs. rejected e c \<Longrightarrow>
   fst (probe_loop e cs log) = Inl (RuntimeError no_python_message)"
  by (induction cs arbitrary: log)
     (auto simp: rejected_def split: option.splits run_outcome.splits)

lemma rejected_iff: "rejected e c \<longleftrightarrow> \<not> qualifying e c \<and> \<not> spawn_fails e c"
  by (auto simp: rejected_def qualifying_def spawn_fails_def
           split: option.splits run_outcome.splits)

lemma probe_loop_error:
  "fst (probe_loop e cs log) = Inl err \<Longrightarrow>
     (err = OSError \<and> (\<exists>c\<in>set cs. spawn_fails e c)) \<or>
     (err = RuntimeError no_python_message \<and> (\<forall>c\<in>set cs. rejected e c))"
proof (induction cs arbitrary: log)
  case Nil
  then show ?case by simp
next
  case (Cons a cs)
  then show ?case
    by (fastforce simp: spawn_fails_def rejected_def split: option.splits if_splits run_outcome.splits)
qed



lemma str_path_absolute: "hd (str_path p) = CHR ''/''"
  by (cases p) (simp_all add: str_path_def)

lemma python_for_generator_calls:
  "\<exists>ps. snd (python_for_generator e) = map probe_cmd ps \<and> length ps \<le> 4 \<and>
        (\<forall>p\<in>set ps. p \<noteq> [] \<and> p \<noteq> executable e) \<and>
        (\<forall>p\<in>set (butlast ps). \<exists>rc. rc \<noteq> 0 \<and> run e (probe_cmd p) = Exited rc)"
proof (cases "version_ok e")
  case True
  then have "snd (python_for_generator e) = map probe_cmd []"
    by (simp add: python_for_generator_def)
  then show ?thesis by fastforce
next
  case False
  then have eq: "python_for_generator e = probe_loop e candidates []"
    by (simp add: python_for_generator_def)
  have "length candidates = 4" by (simp add: candidates_def)
  then show ?thesis
    using probe_loop_calls [of e candidates "[]"] eq by auto
qed


lemma main_calls:
  "snd (main e) = snd (python_for_generator e) @
     (case fst (python_for_generator e) of Inl err \<Rightarrow> [] | Inr p \<Rightarrow> [generator_cmd e p])"
  by (cases "python_for_generator e")
     (simp add: main_def split: sum.splits run_outcome.splits)

lemma script_calls: "snd (script e) = snd (main e)"
  by (cases "main e") (simp add: script_def split: sum.splits)

subsection \<open>Commands and the file system\<close>

text \<open>Probe and generator commands never coincide, and each determines its interpreter;
  nothing the script computes depends on \<open>is_file\<close>.\<close>

lemma probe_cmd_inj: "probe_cmd p = probe_cmd q \<Longrightarrow> p = q"
  by (simp add: probe_cmd_def)

lemma probe_loop_is_file: "probe_loop (e\<lparr>is_file := f\<rparr>) cs log = probe_loop e cs log"
  by (induction cs arbitrary: log) (simp_all split: option.splits run_outcome.splits)

lemma python_for_generator_is_file:
  "python_for_generator (e\<lparr>is_file := f\<rparr>) = python_for_generator e"
  by (simp add: python_for_generator_def version_ok_def probe_loop_is_file)

lemma generator_cmd_is_file: "generator_cmd (e\<lparr>is_file := f\<rparr>) p = generator_cmd e p"
  by (simp add: generator_cmd_def)

subsection \<open>The claims\<close>

text \<open>
  C1. When the generator child ends with an exit code between 0 and 255, \<open>main\<close>
  returns that code and the exit status of the whole script is that code: nothing
  interprets, remaps or suppresses it.
\<close>

theorem script_forwards_generator_exit_code:
  "python_for_generator e = (Inr p, log) \<Longrightarrow> run e (generator_cmd e p) = Exited rc \<Longrightarrow>
   0 \<le> rc \<Longrightarrow> rc \<le> 255 \<Longrightarrow>
   fst (main e) = Inr rc \<and> fst (script e) = rc"
  by (simp add: main_def script_def)

theorem script_forwards_generator_exit_code_witness:
  "python_for_generator env_39 =
     (Inr ''/usr/local/bin/python3.11'', [probe_cmd ''/usr/local/bin/python3.11'']) \<and>
   run env_39 (generator_cmd env_39 ''/usr/local/bin/python3.11'') = Exited 7 \<and>
   fst (main env_39) = Inr 7 \<and> fst (script env_39) = 7"
proof -
  have r: "python_for_generator env_39 =
     (Inr ''/usr/local/bin/python3.11'', [probe_cmd ''/usr/local/bin/python3.11''])"
    by (simp add: env_39_def python_for_generator_def version_ok_def MIN_VERSION_def
        candidates_def probe_cmd_def)
  have g: "run env_39 (generator_cmd env_39 ''/usr/local/bin/python3.11'') = Exited 7"
    by (simp add: env_39_def generator_cmd_def Let_def)
  show ?thesis
    using r g script_forwards_generator_exit_code [OF r g] by simp
qed

text \<open>
  C2, as the specification states it: when the running interpreter is too old and some
  candidate qualifies, \<open>python_for_generator\<close> returns the first qualifying candidate's
  path. In \<open>env_broken\<close> the first qualifying candidate is \<open>python3.11\<close>, but the probe of
  \<open>python3.12\<close>, listed before it, cannot be started: \<open>subprocess.run\<close> raises and the
  function returns nothing.
\<close>

theorem first_qualifying_counterexample:
  "\<not> version_ok env_broken \<and>
   find (qualifying env_broken) candidates = Some ''python3.11'' \<and>
   which env_broken ''python3.11'' = Some ''/usr/local/bin/python3.11'' \<and>
   fst (python_for_generator env_broken) \<noteq> Inr ''/usr/local/bin/python3.11''"
  by (simp add: env_broken_def python_for_generator_def version_ok_def MIN_VERSION_def
      candidates_def probe_cmd_def qualifying_def)

text \<open>
  C2, amended. When the running interpreter is too old, some candidate qualifies, and the
  probe of no candidate listed before the first qualifying one fails to start,
  \<open>python_for_generator\<close> returns the path of the first qualifying candidate in list
  order, however many later ones qualify.
\<close>

theorem python_for_generator_first_qualifying:
  "\<not> version_ok e \<Longrightarrow> find (qualifying e) candidates = Some c \<Longrightarrow> which e c = Some p \<Longrightarrow>
   \<forall>c'\<in>set (takeWhile (\<lambda>c'. \<not> qualifying e c') candidates). \<not> spawn_fails e c' \<Longrightarrow>
   fst (python_for_generator e) = Inr p"
  by (simp add: python_for_generator_def probe_loop_first)

theorem python_for_generator_first_qualifying_witness:
  "\<not> version_ok env_worst \<and> find (qualifying env_worst) candidates = Some ''python3'' \<and>
   which env_worst ''python3'' = Some ''/usr/local/bin/python3'' \<and>
   takeWhile (\<lambda>c'. \<not> qualifying env_worst c') candidates =
     [''python3.12'', ''python3.11'', ''python3.10''] \<and>
   map (spawn_fails env_worst) [''python3.12'', ''python3.11'', ''python3.10''] =
     [False, False, False] \<and>
   fst (python_for_generator env_worst) = Inr ''/usr/local/bin/python3''"
proof -
  have v: "\<not> version_ok env_worst"
    by (simp add: env_worst_def version_ok_def MIN_VERSION_def)
  have f: "find (qualifying env_worst) candidates = Some ''python3''"
    by (simp add: env_worst_def candidates_def qualifying_def probe_cmd_def)
  have w: "which env_worst ''python3'' = Some ''/usr/local/bin/python3''"
    by (simp add: env_worst_def)
  have s: "\<forall>c'\<in>set (takeWhile (\<lambda>c'. \<not> qualifying env_worst c') candidates). \<not> spawn_fails env_worst c'"
    by (simp add: env_worst_def candidates_def qualifying_def spawn_fails_def probe_cmd_def)
  have t: "takeWhile (\<lambda>c'. \<not> qualifying env_worst c') candidates =
     [''python3.12'', ''python3.11'', ''python3.10'']"
    by (simp add: env_worst_def candidates_def qualifying_def probe_cmd_def)
  have m: "map (spawn_fails env_worst) [''python3.12'', ''python3.11'', ''python3.10''] =
     [False, False, False]"
    by (simp add: env_worst_def spawn_fails_def probe_cmd_def)
  show ?thesis
    using v f w t m python_for_generator_first_qualifying [OF v f w s] by simp
qed

text \<open>
  C3. When the running interpreter's version is at least \<open>MIN_VERSION\<close>,
  \<open>python_for_generator\<close> returns \<open>sys.executable\<close> and has made no call of
  \<open>subprocess.run\<close>: no probe is spawned. The result is the same whatever the search
  path holds and whatever any process would do, so no lookup takes part in it.
\<close>

theorem python_for_generator_fast_path:
  "version_ok e \<Longrightarrow>
   python_for_generator e = (Inr (executable e), []) \<and>
   python_for_generator (e\<lparr>which := w, run := r\<rparr>) = (Inr (executable e), [])"
  by (simp add: python_for_generator_def version_ok_def)

theorem python_for_generator_fast_path_witness:
  "version_ok env_311 \<and> python_for_generator env_311 = (Inr ''/usr/bin/python3'', []) \<and>
   python_for_generator
     (env_311\<lparr>which := \<lambda>name. Some ''/opt/bin/python3.12'', run := \<lambda>c. Exited 0\<rparr>) =
     (Inr ''/usr/bin/python3'', [])"
proof -
  have ok: "version_ok env_311"
    by (simp add: version_ok_def MIN_VERSION_def env_311_def)
  have x: "executable env_311 = ''/usr/bin/python3''"
    by (simp add: env_311_def)
  show ?thesis
    using ok x python_for_generator_fast_path
      [OF ok, where w = "\<lambda>name. Some ''/opt/bin/python3.12''" and r = "\<lambda>c. Exited 0"]
    by simp
qed



text \<open>
  C5, as the specification states it: when the running interpreter is too old and no
  candidate of the list qualifies, \<open>python_for_generator\<close> raises the \<open>RuntimeError\<close>
  with its message. In \<open>env_unstartable\<close> no candidate qualifies: the probes of the three
  versioned names exit with 127, and the probe of \<open>python3\<close>, the last of the list,
  cannot be started. All four candidates are tried, but \<open>subprocess.run\<close> raises
  \<open>OSError\<close> on the fourth and the \<open>raise RuntimeError(...)\<close> after the loop is never
  reached.
\<close>

theorem no_qualifying_interpreter_counterexample:
  "\<not> version_ok env_unstartable \<and>
   filter (qualifying env_unstartable) candidates = [] \<and>
   length (snd (python_for_generator env_unstartable)) = 4 \<and>
   fst (python_for_generator env_unstartable) = Inl OSError \<and>
   fst (python_for_generator env_unstartable) \<noteq> Inl (RuntimeError no_python_message)"
  by (simp add: env_unstartable_def python_for_generator_def version_ok_def MIN_VERSION_def
      candidates_def probe_cmd_def qualifying_def)

text \<open>
  C5, amended. When the running interpreter is too old, no candidate of the list
  qualifies and the probe of no candidate fails to start, \<open>python_for_generator\<close> raises
  \<open>RuntimeError\<close> with a message that names the requirement (Python 3.10+) and tells
  the operator to install it so that it is found as \<open>python3\<close>.
\<close>

theorem python_for_generator_no_qualifying_interpreter:
  "\<not> version_ok e \<Longrightarrow> \<forall>c\<in>set candidates. \<not> qualifying e c \<Longrightarrow>
   \<forall>c\<in>set candidates. \<not> spawn_fails e c \<Longrightarrow>
   fst (python_for_generator e) =
     Inl (RuntimeError (''Python 3.10+ is required to generate MCP types. '' @
                        ''Install Python 3.10 or newer and ensure it is discoverable as python3.''))"
  using probe_loop_rejected [of candidates e "[]"]
  by (simp add: python_for_generator_def no_python_message_def rejected_iff)

theorem python_for_generator_no_qualifying_interpreter_witness:
  "\<not> version_ok env_all_shims \<and>
   filter (qualifying env_all_shims) candidates = [] \<and>
   filter (spawn_fails env_all_shims) candidates = [] \<and>
   length (snd (python_for_generator env_all_shims)) = 4 \<and>
   fst (python_for_generator env_all_shims) =
     Inl (RuntimeError (''Python 3.10+ is required to generate MCP types. '' @
                        ''Install Python 3.10 or newer and ensure it is discoverable as python3.''))"
proof -
  have v: "\<not> version_ok env_all_shims"
    by (simp add: env_all_shims_def version_ok_def MIN_VERSION_def)
  have q: "\<forall>c\<in>set candidates. \<not> qualifying env_all_shims c"
    by (simp add: env_all_shims_def candidates_def qualifying_def)
  have s: "\<forall>c\<in>set candidates. \<not> spawn_fails env_all_shims c"
    by (simp add: env_all_shims_def candidates_def spawn_fails_def)
  have fq: "filter (qualifying env_all_shims) candidates = []"
    using q by (simp add: filter_empty_conv)
  have fs: "filter (spawn_fails env_all_shims) candidates = []"
    using s by (simp add: filter_empty_conv)
  have n: "length (snd (python_for_generator env_all_shims)) = 4"
    by (simp add: env_all_shims_def python_for_generator_def version_ok_def MIN_VERSION_def
        candidates_def probe_cmd_def)
  show ?thesis
    using v fq fs n python_for_generator_no_qualifying_interpreter [OF v q s] by blast
qed

text \<open>
  C6, as the specification states it: every failure of a probe, a nonzero exit or a failure
  to start, is passed over and the loop goes on to the next candidate. In \<open>env_broken\<close>
  the probe of \<open>python3.12\<close> cannot be started: \<open>python_for_generator\<close> ends with
  \<open>OSError\<close> after that one call, although going on with the remaining candidates would
  have returned \<open>python3.11\<close>.
\<close>

theorem probe_spawn_failure_counterexample:
  "spawn_fails env_broken ''python3.12'' \<and>
   python_for_generator env_broken = (Inl OSError, [probe_cmd ''/opt/broken/bin/python3.12'']) \<and>
   fst (probe_loop env_broken [''python3.11'', ''python3.10'', ''python3'']
          [probe_cmd ''/opt/broken/bin/python3.12'']) = Inr ''/usr/local/bin/python3.11''"
  by (simp add: env_broken_def python_for_generator_def version_ok_def MIN_VERSION_def
      candidates_def probe_cmd_def spawn_fails_def)

text \<open>
  C6, amended. A probe that exits with a nonzero status is passed over: the loop records
  the call and goes on with the next candidate. Such an exit is never an error of
  \<open>python_for_generator\<close> by itself: when the function raises, either the probe of some
  candidate could not be started (\<open>OSError\<close>), or every candidate was passed over and the
  error is the \<open>RuntimeError\<close> after the loop. A probe that cannot be started is not
  passed over: the loop ends there with \<open>OSError\<close>.
\<close>

theorem probe_nonzero_exit_recovered:
  "(which e c = Some p \<and> p \<noteq> [] \<and> p \<noteq> executable e \<and>
    run e (probe_cmd p) = Exited rc \<and> rc \<noteq> 0 \<longrightarrow>
      probe_loop e (c # rest) log = probe_loop e rest (log @ [probe_cmd p])) \<and>
   (fst (python_for_generator e) = Inl err \<longrightarrow>
      (err = OSError \<and> (\<exists>c\<in>set candidates. spawn_fails e c)) \<or>
      (err = RuntimeError no_python_message \<and> (\<forall>c\<in>set candidates. rejected e c))) \<and>
   (which e c = Some p \<and> p \<noteq> [] \<and> p \<noteq> executable e \<and>
    run e (probe_cmd p) = SpawnFailed \<longrightarrow>
      probe_loop e (c # rest) log = (Inl OSError, log @ [probe_cmd p]))"
proof (intro conjI)
  show "which e c = Some p \<and> p \<noteq> [] \<and> p \<noteq> executable e \<and>
    run e (probe_cmd p) = Exited rc \<and> rc \<noteq> 0 \<longrightarrow>
      probe_loop e (c # rest) log = probe_loop e rest (log @ [probe_cmd p])"
    by simp
next
  show "fst (python_for_generator e) = Inl err \<longrightarrow>
      (err = OSError \<and> (\<exists>c\<in>set candidates. spawn_fails e c)) \<or>
      (err = RuntimeError no_python_message \<and> (\<forall>c\<in>set candidates. rejected e c))"
  proof
    assume err: "fst (python_for_generator e) = Inl err"
    then have "fst (probe_loop e candidates []) = Inl err"
      by (simp add: python_for_generator_def split: if_splits)
    then show "(err = OSError \<and> (\<exists>c\<in>set candidates. spawn_fails e c)) \<or>
        (err = RuntimeError no_python_message \<and> (\<forall>c\<in>set candidates. rejected e c))"
      by (rule probe_loop_error)
  qed
next
  show "which e c = Some p \<and> p \<noteq> [] \<and> p \<noteq> executable e \<and>
    run e (probe_cmd p) = SpawnFailed \<longrightarrow>
      probe_loop e (c # rest) log = (Inl OSError, log @ [probe_cmd p])"
    by simp
qed

theorem probe_nonzero_exit_recovered_witness:
  "which env_shim ''python3.10'' = Some ''/home/dev/.pyenv/shims/python3.10'' \<and>
   run env_shim (probe_cmd ''/home/dev/.pyenv/shims/python3.10'') = Exited 127 \<and>
   probe_loop env_shim [''python3.10'', ''python3''] [] =
     probe_loop env_shim [''python3''] [probe_cmd ''/home/dev/.pyenv/shims/python3.10''] \<and>
   fst (python_for_generator env_shim) = Inr ''/usr/local/bin/python3'' \<and>
   fst (python_for_generator env_38) = Inl (RuntimeError no_python_message) \<and>
   map (rejected env_38) candidates = [True, True, True, True]"
proof -
  have w: "which env_shim ''python3.10'' = Some ''/home/dev/.pyenv/shims/python3.10''"
    by (simp add: env_shim_def)
  have r: "run env_shim (probe_cmd ''/home/dev/.pyenv/shims/python3.10'') = Exited 127"
    by (simp add: env_shim_def probe_cmd_def)
  have x: "''/home/dev/.pyenv/shims/python3.10'' \<noteq> executable env_shim"
    by (simp add: env_shim_def)
  have l: "probe_loop env_shim [''python3.10'', ''python3''] [] =
     probe_loop env_shim [''python3''] [probe_cmd ''/home/dev/.pyenv/shims/python3.10'']"
    using probe_nonzero_exit_recovered
      [of env_shim "''python3.10''" "''/home/dev/.pyenv/shims/python3.10''" 127 "[''python3'']" "[]"]
      w r x by simp
  have s: "fst (python_for_generator env_shim) = Inr ''/usr/local/bin/python3''"
    by (simp add: env_shim_def python_for_generator_def version_ok_def MIN_VERSION_def
        candidates_def probe_cmd_def)
  have e: "fst (python_for_generator env_38) = Inl (RuntimeError no_python_message)"
    by (simp add: env_38_def python_for_generator_def version_ok_def MIN_VERSION_def
        candidates_def)
  have m: "map (rejected env_38) candidates = [True, True, True, True]"
    by (simp add: env_38_def candidates_def rejected_def)
  show ?thesis using w r l s e m by blast
qed

text \<open>
  C7. When the running interpreter is too old and a candidate name resolves to
  \<open>sys.executable\<close>, no probe of that path is among the calls of
  \<open>python_for_generator\<close> and the function does not return it.
\<close>

theorem running_interpreter_never_probed:
  "\<not> version_ok e \<Longrightarrow> c \<in> set candidates \<Longrightarrow> which e c = Some (executable e) \<Longrightarrow>
   probe_cmd (executable e) \<notin> set (snd (python_for_generator e)) \<and>
   fst (python_for_generator e) \<noteq> Inr (executable e)"
proof
  obtain ps where ps: "snd (python_for_generator e) = map probe_cmd ps"
    and ne: "\<forall>p\<in>set ps. p \<noteq> [] \<and> p \<noteq> executable e"
    using python_for_generator_calls [of e] by blast
  show "probe_cmd (executable e) \<notin> set (snd (python_for_generator e))"
    using ps ne by (auto dest: probe_cmd_inj)
next
  assume v: "\<not> version_ok e"
  show "fst (python_for_generator e) \<noteq> Inr (executable e)"
  proof
    assume "fst (python_for_generator e) = Inr (executable e)"
    then have "probe_loop e candidates [] = (Inr (executable e), snd (probe_loop e candidates []))"
      using v by (simp add: python_for_generator_def prod_eq_iff)
    from probe_loop_Inr [OF this] show False by simp
  qed
qed

theorem running_interpreter_never_probed_witness:
  "\<not> version_ok env_39 \<and> ''python3'' \<in> set candidates \<and>
   which env_39 ''python3'' = Some (executable env_39) \<and>
   probe_cmd (executable env_39) \<notin> set (snd (python_for_generator env_39)) \<and>
   fst (python_for_generator env_39) \<noteq> Inr (executable env_39)"
proof -
  have v: "\<not> version_ok env_39"
    by (simp add: env_39_def version_ok_def MIN_VERSION_def)
  have c: "''python3'' \<in> set candidates"
    by (simp add: candidates_def)
  have w: "which env_39 ''python3'' = Some (executable env_39)"
    by (simp add: env_39_def)
  show ?thesis
    using v c w running_interpreter_never_probed [OF v c w] by blast
qed

text \<open>
  C8. For the interpreter path \<open>p\<close> that \<open>python_for_generator\<close> returns, \<open>main\<close> makes
  after the probes exactly one more call: \<open>[p, script, "--check"]\<close>, where \<open>script\<close>
  is \<open>generate_mcp_types.py\<close> in the directory of the resolved \<open>__file__\<close>, an absolute
  path, and the working directory of the child is that directory. The probes before it
  pass no working directory.
\<close>

theorem main_runs_generator_command:
  "python_for_generator e = (Inr p, log) \<Longrightarrow>
   snd (main e) = log @
     [\<lparr>args = [p, str_path (joinpath (parent (this_file e)) ''generate_mcp_types.py''),
               ''--check''],
       cwd = Some (str_path (parent (this_file e)))\<rparr>] \<and>
   hd (str_path (joinpath (parent (this_file e)) ''generate_mcp_types.py'')) = CHR ''/'' \<and>
   list_all (\<lambda>c. cwd c = None) log"
proof -
  assume r: "python_for_generator e = (Inr p, log)"
  obtain ps where "log = map probe_cmd ps"
    using python_for_generator_calls [of e] r by auto
  then have "list_all (\<lambda>c. cwd c = None) log"
    by (simp add: list_all_iff probe_cmd_def)
  then show ?thesis
    using r by (simp add: main_calls generator_cmd_def Let_def str_path_absolute)
qed

theorem main_runs_generator_command_witness:
  "python_for_generator env_39 =
     (Inr ''/usr/local/bin/python3.11'', [probe_cmd ''/usr/local/bin/python3.11'']) \<and>
   snd (main env_39) =
     [probe_cmd ''/usr/local/bin/python3.11'',
      \<lparr>args = [''/usr/local/bin/python3.11'', ''/repo/mcp-types/generate_mcp_types.py'',
               ''--check''],
       cwd = Some ''/repo/mcp-types''\<rparr>]"
proof -
  have r: "python_for_generator env_39 =
     (Inr ''/usr/local/bin/python3.11'', [probe_cmd ''/usr/local/bin/python3.11''])"
    by (simp add: env_39_def python_for_generator_def version_ok_def MIN_VERSION_def
        candidates_def probe_cmd_def)
  have f: "this_file env_39 = [''repo'', ''mcp-types'', ''check_lib_rs.py'']"
    by (simp add: env_39_def)
  show ?thesis
    using r main_runs_generator_command [OF r]
    by (simp add: f parent_def joinpath_def str_path_def)
qed

text \<open>
  C9, as the specification states it: at most two processes are spawned in one run. In
  \<open>env_shim\<close> three are: the probe of \<open>python3.10\<close>, which exits with 127, the probe of
  \<open>python3\<close>, which exits with 0, and the generator.
\<close>

theorem two_processes_counterexample:
  "spawned env_shim (snd (script env_shim)) =
     [probe_cmd ''/home/dev/.pyenv/shims/python3.10'',
      probe_cmd ''/usr/local/bin/python3'',
      generator_cmd env_shim ''/usr/local/bin/python3''] \<and>
   \<not> length (spawned env_shim (snd (script env_shim))) \<le> 2"
  by (simp add: env_shim_def script_def main_def python_for_generator_def version_ok_def
      MIN_VERSION_def candidates_def probe_cmd_def generator_cmd_def Let_def spawned_def)

text \<open>
  C9, amended. At most five processes are spawned in one run: up to four probes, one
  candidate after the other in list order, where every probe followed by another call
  exited with a nonzero status (probing stops at the first candidate whose probe exits
  with 0), and then at most one generator process. \<open>env_worst\<close> reaches five.
\<close>

theorem script_spawns_at_most_five:
  "length (spawned e (snd (script e))) \<le> 5 \<and>
   (\<exists>ps g. snd (script e) = map probe_cmd ps @ g \<and> length ps \<le> 4 \<and>
      (g = [] \<or> (\<exists>p. g = [generator_cmd e p])) \<and>
      (\<forall>p\<in>set (butlast ps). \<exists>rc. rc \<noteq> 0 \<and> run e (probe_cmd p) = Exited rc))"
proof -
  obtain ps where ps: "snd (python_for_generator e) = map probe_cmd ps"
    and len: "length ps \<le> 4"
    and nz: "\<forall>p\<in>set (butlast ps). \<exists>rc. rc \<noteq> 0 \<and> run e (probe_cmd p) = Exited rc"
    using python_for_generator_calls [of e] by blast
  define g where "g = (case fst (python_for_generator e) of
     Inl err \<Rightarrow> [] | Inr p \<Rightarrow> [generator_cmd e p])"
  have calls: "snd (script e) = map probe_cmd ps @ g"
    by (simp add: script_calls main_calls ps g_def)
  have g: "g = [] \<or> (\<exists>p. g = [generator_cmd e p])"
    by (auto simp: g_def split: sum.splits)
  then have "length g \<le> 1" by auto
  then have "length (snd (script e)) \<le> 5"
    using calls len by simp
  moreover have "length (spawned e (snd (script e))) \<le> length (snd (script e))"
    by (simp add: spawned_def)
  ultimately have "length (spawned e (snd (script e))) \<le> 5" by linarith
  then show ?thesis using calls len g nz by blast
qed

theorem script_spawns_at_most_five_witness:
  "length (spawned env_worst (snd (script env_worst))) = 5 \<and>
   length (spawned env_worst (snd (script env_worst))) \<le> 5"
proof -
  have "length (spawned env_worst (snd (script env_worst))) = 5"
    by (simp add: env_worst_def script_def main_def python_for_generator_def version_ok_def
        MIN_VERSION_def candidates_def probe_cmd_def generator_cmd_def Let_def spawned_def)
  then show ?thesis
    using script_spawns_at_most_five [of env_worst] by blast
qed

text \<open>
  C10. \<open>main\<close> never looks whether \<open>generate_mcp_types.py\<close> exists: its result and its
  calls are the same whatever files exist. Whenever resolution returns an interpreter,
  \<open>main\<close> runs the generator command, and whatever code the child exits with, 0 or not,
  is returned as a value, not raised as an error, and becomes the exit status.
\<close>

theorem main_never_checks_generator_exists:
  "main (e\<lparr>is_file := f\<rparr>) = main e \<and>
   (python_for_generator e = (Inr p, log) \<and> run e (generator_cmd e p) = Exited rc \<longrightarrow>
      main e = (Inr rc, log @ [generator_cmd e p]) \<and> fst (script e) = rc mod 256)"
proof
  show "main (e\<lparr>is_file := f\<rparr>) = main e"
    by (simp add: main_def python_for_generator_is_file generator_cmd_is_file
        split: prod.splits sum.splits run_outcome.splits)
next
  show "python_for_generator e = (Inr p, log) \<and> run e (generator_cmd e p) = Exited rc \<longrightarrow>
      main e = (Inr rc, log @ [generator_cmd e p]) \<and> fst (script e) = rc mod 256"
    by (simp add: main_def script_def)
qed

theorem main_never_checks_generator_exists_witness:
  "\<not> is_file env_no_script ''/repo/mcp-types/generate_mcp_types.py'' \<and>
   main (env_no_script\<lparr>is_file := \<lambda>p. True\<rparr>) = main env_no_script \<and>
   python_for_generator env_no_script = (Inr ''/usr/bin/python3'', []) \<and>
   run env_no_script (generator_cmd env_no_script ''/usr/bin/python3'') = Exited 2 \<and>
   main env_no_script = (Inr 2, [generator_cmd env_no_script ''/usr/bin/python3'']) \<and>
   fst (script env_no_script) = 2"
proof -
  have n: "\<not> is_file env_no_script ''/repo/mcp-types/generate_mcp_types.py''"
    by (simp add: env_no_script_def)
  have r: "python_for_generator env_no_script = (Inr ''/usr/bin/python3'', [])"
    by (simp add: env_no_script_def python_for_generator_def version_ok_def MIN_VERSION_def)
  have g: "run env_no_script (generator_cmd env_no_script ''/usr/bin/python3'') = Exited 2"
    by (simp add: env_no_script_def)
  show ?thesis
    using n r g
      main_never_checks_generator_exists
        [where e = env_no_script and f = "\<lambda>p. True" and p = "''/usr/bin/python3''"
           and log = "[]" and rc = 2]
    by simp
qed

end
